theory Spec2Isabelle
  imports Main
begin

section \<open>JavaScript values\<close>

text \<open>
  Request bodies, collaborator results and thrown values are JavaScript values.
  A Number is represented by its canonical decimal rendering (what
  \<^verbatim>\<open>Number.prototype.toString\<close> returns: \<open>''5''\<close>, \<open>''1.5''\<close>, \<open>''NaN''\<close>; both zeros
  render as \<open>''0''\<close>), since the program only tests numbers for truthiness and converts
  them to strings. An object is the list of its properties in insertion order; the
  values are data only (there are no function values in a JSON body or an SDK result).
\<close>

datatype jsval =
    JUndefined
  | JNull
  | JBool bool
  | JNum string
  | JStr string
  | JArr "jsval list"
  | JObj "(string \<times> jsval) list"

text \<open>\<^verbatim>\<open>!v\<close> is true exactly for the falsy values.\<close>

fun truthy :: "jsval \<Rightarrow> bool" where
  "truthy JUndefined = False"
| "truthy JNull = False"
| "truthy (JBool b) = b"
| "truthy (JNum t) = (if t = ''0'' then False else if t = ''NaN'' then False else True)"
| "truthy (JStr s) = (if s = [] then False else True)"
| "truthy (JArr xs) = True"
| "truthy (JObj kvs) = True"

definition typeError :: "string \<Rightarrow> jsval" where
  "typeError m = JObj [(''name'', JStr ''TypeError''), (''message'', JStr m)]"

text \<open>
  Property read \<^verbatim>\<open>v.k\<close>, \<open>Inl\<close> the TypeError thrown on \<^verbatim>\<open>undefined\<close> and \<^verbatim>\<open>null\<close>
  (the message is V8's wording). The program reads the names \<^verbatim>\<open>imageUrl\<close>, \<^verbatim>\<open>tags\<close>,
  \<^verbatim>\<open>faces\<close>, \<^verbatim>\<open>color\<close> and \<^verbatim>\<open>message\<close> only; none of them is defined on the prototypes of
  objects, arrays, strings, numbers or booleans, so there the read yields the property
  itself or \<^verbatim>\<open>undefined\<close>.
\<close>

fun getProp :: "jsval \<Rightarrow> string \<Rightarrow> jsval + jsval" where
  "getProp JUndefined k =
     Inl (typeError (''Cannot read properties of undefined (reading '' @ [CHR 0x27] @ k @ [CHR 0x27] @ '')''))"
| "getProp JNull k =
     Inl (typeError (''Cannot read properties of null (reading '' @ [CHR 0x27] @ k @ [CHR 0x27] @ '')''))"
| "getProp (JObj kvs) k = Inr (case map_of kvs k of None \<Rightarrow> JUndefined | Some v \<Rightarrow> v)"
| "getProp v k = Inr JUndefined"

text \<open>
  The destructuring \<^verbatim>\<open>const { k } = req.body\<close> reads the property like \<^verbatim>\<open>req.body.k\<close>
  and differs only in the TypeError V8 throws on \<^verbatim>\<open>undefined\<close> and \<^verbatim>\<open>null\<close>.
\<close>

fun destructure :: "jsval \<Rightarrow> string \<Rightarrow> jsval + jsval" where
  "destructure JUndefined k =
     Inl (typeError (''Cannot destructure property '' @ [CHR 0x27] @ k @ [CHR 0x27] @ '' of '' @
        [CHR 0x27] @ ''req.body'' @ [CHR 0x27] @ '' as it is undefined.''))"
| "destructure JNull k =
     Inl (typeError (''Cannot destructure property '' @ [CHR 0x27] @ k @ [CHR 0x27] @ '' of '' @
        [CHR 0x27] @ ''req.body'' @ [CHR 0x27] @ '' as it is null.''))"
| "destructure v k = getProp v k"

text \<open>
  \<^verbatim>\<open>ToString\<close>, \<open>None\<close> when it throws a TypeError. An array is joined with commas,
  \<^verbatim>\<open>undefined\<close> and \<^verbatim>\<open>null\<close> elements rendering as the empty string. An object with the
  inherited \<^verbatim>\<open>toString\<close> renders as \<^verbatim>\<open>[object Object]\<close>; one with an own property of
  that name (never callable here) has no primitive value, and the conversion throws.
\<close>

fun toStringJS :: "jsval \<Rightarrow> string option"
  and joinJS :: "jsval list \<Rightarrow> string option"
  and elementJS :: "jsval \<Rightarrow> string option" where
  "toStringJS JUndefined = Some ''undefined''"
| "toStringJS JNull = Some ''null''"
| "toStringJS (JBool b) = Some (if b then ''true'' else ''false'')"
| "toStringJS (JNum t) = Some t"
| "toStringJS (JStr s) = Some s"
| "toStringJS (JArr xs) = joinJS xs"
| "toStringJS (JObj kvs) =
     (case map_of kvs ''toString'' of None \<Rightarrow> Some ''[object Object]'' | Some f \<Rightarrow> None)"
| "joinJS [] = Some []"
| "joinJS (x # xs) =
     (case elementJS x of
        None \<Rightarrow> None
      | Some s \<Rightarrow>
          (case xs of
             [] \<Rightarrow> Some s
           | y # ys \<Rightarrow> (case joinJS xs of None \<Rightarrow> None | Some t \<Rightarrow> Some (s @ '','' @ t))))"
| "elementJS JUndefined = Some []"
| "elementJS JNull = Some []"
| "elementJS (JBool b) = toStringJS (JBool b)"
| "elementJS (JNum t) = toStringJS (JNum t)"
| "elementJS (JStr s) = toStringJS (JStr s)"
| "elementJS (JArr xs) = toStringJS (JArr xs)"
| "elementJS (JObj kvs) = toStringJS (JObj kvs)"

section \<open>The runtime's URL constructor\<close>

text \<open>
  \<^verbatim>\<open>new URL(input)\<close> converts its argument to a string and runs the URL Standard's
  basic URL parser without a base URL; it throws when the parser returns failure.
  The functions below follow the parser's states as far as they decide between
  success and failure. The host parser (IPv6 literals, percent-decoding, IDNA
  processing, forbidden code points, IPv4 numbers) is not modelled: it is the
  parameter \<open>hostp\<close>, called as \<open>hostp isOpaque input\<close> and \<open>True\<close> when it returns
  a host. Strings are \<open>string\<close>s, one \<open>char\<close> per code unit.
\<close>

definition c0_control_or_space :: "char \<Rightarrow> bool" where
  "c0_control_or_space c = (of_char c \<le> (0x20 :: nat))"

definition tab_or_newline :: "char \<Rightarrow> bool" where
  "tab_or_newline c = (c = CHR 0x09 \<or> c = CHR 0x0A \<or> c = CHR 0x0D)"

definition strip_and_clean :: "string \<Rightarrow> string" where
  "strip_and_clean input =
     filter (\<lambda>c. if tab_or_newline c then False else True)
       (rev (dropWhile c0_control_or_space (rev (dropWhile c0_control_or_space input))))"

definition ascii_upper :: string where
  "ascii_upper = ''ABCDEFGHIJKLMNOPQRSTUVWXYZ''"

definition ascii_lower :: string where
  "ascii_lower = ''abcdefghijklmnopqrstuvwxyz''"

definition ascii_alpha :: "char \<Rightarrow> bool" where
  "ascii_alpha c = (c \<in> set (ascii_upper @ ascii_lower))"

definition ascii_digit :: "char \<Rightarrow> bool" where
  "ascii_digit c = (c \<in> set ''0123456789'')"

definition ascii_lowercase :: "char \<Rightarrow> char" where
  "ascii_lowercase c = (case map_of (zip ascii_upper ascii_lower) c of None \<Rightarrow> c | Some l \<Rightarrow> l)"

definition scheme_char :: "char \<Rightarrow> bool" where
  "scheme_char c = (ascii_alpha c \<or> ascii_digit c \<or> c \<in> set ''+-.'')"

text \<open>
  Scheme start state and scheme state: an ASCII letter, then letters, digits,
  \<^verbatim>\<open>+\<close>, \<^verbatim>\<open>-\<close>, \<^verbatim>\<open>.\<close> up to a colon. Anything else leads to the no scheme state,
  which fails without a base URL. The result is the lower-cased scheme and the input
  after the colon.
\<close>

definition split_scheme :: "string \<Rightarrow> (string \<times> string) option" where
  "split_scheme s =
     (case s of
        [] \<Rightarrow> None
      | c # cs \<Rightarrow>
          if ascii_alpha c then
            (case dropWhile scheme_char cs of
               [] \<Rightarrow> None
             | d # rest \<Rightarrow>
                 if d = CHR '':''
                 then Some (map ascii_lowercase (c # takeWhile scheme_char cs), rest)
                 else None)
          else None)"

definition special_schemes :: "string list" where
  "special_schemes = [''ftp'', ''file'', ''http'', ''https'', ''ws'', ''wss'']"

definition slash :: "char \<Rightarrow> bool" where
  "slash c = (c = CHR ''/'' \<or> c = CHR 0x5C)"

text \<open>The code points that end the authority: \<^verbatim>\<open>/ ? #\<close>, and the backslash in a special URL.\<close>

definition authority_end :: "bool \<Rightarrow> char \<Rightarrow> bool" where
  "authority_end special c =
     (c = CHR ''/'' \<or> c = CHR ''?'' \<or> c = CHR ''#'' \<or> (special \<and> c = CHR 0x5C))"

text \<open>Port state: ASCII digits only, and a value of at most 65535 when there are any.\<close>

definition digit_value :: "char \<Rightarrow> nat" where
  "digit_value c = of_char c - 48"

definition port_state :: "string \<Rightarrow> bool" where
  "port_state buffer =
     (list_all ascii_digit buffer \<and>
      (buffer = [] \<or> foldl (\<lambda>n c. 10 * n + digit_value c) 0 buffer \<le> 65535))"

text \<open>
  Host state: the buffer runs up to the first colon outside square brackets; the
  result is the buffer and, after a colon, the rest.
\<close>

fun host_buffer :: "bool \<Rightarrow> string \<Rightarrow> string \<Rightarrow> string \<times> string option" where
  "host_buffer insideBrackets buffer [] = (buffer, None)"
| "host_buffer insideBrackets buffer (c # cs) =
     (if c = CHR '':'' \<and> insideBrackets = False then (buffer, Some cs)
      else host_buffer
             (if c = CHR ''['' then True else if c = CHR '']'' then False else insideBrackets)
             (buffer @ [c]) cs)"

definition host_state :: "(bool \<Rightarrow> string \<Rightarrow> bool) \<Rightarrow> bool \<Rightarrow> string \<Rightarrow> bool" where
  "host_state hostp special s =
     (case host_buffer False [] s of
        (buffer, Some port) \<Rightarrow>
          if buffer = [] then False
          else if hostp (if special then False else True) buffer then port_state port
          else False
      | (buffer, None) \<Rightarrow>
          if special \<and> buffer = [] then False
          else hostp (if special then False else True) buffer)"

text \<open>
  Authority state: the authority ends at the first terminating code point; the host
  starts after its last \<^verbatim>\<open>@\<close>, and credentials followed by an empty host fail.
\<close>

definition authority_state :: "(bool \<Rightarrow> string \<Rightarrow> bool) \<Rightarrow> bool \<Rightarrow> string \<Rightarrow> bool" where
  "authority_state hostp special s =
     (let authority = takeWhile (\<lambda>c. if authority_end special c then False else True) s;
          atSignSeen = (CHR ''@'' \<in> set authority);
          buffer = rev (takeWhile (\<lambda>c. if c = CHR ''@'' then False else True) (rev authority))
      in if atSignSeen \<and> buffer = [] then False else host_state hostp special buffer)"

definition windows_drive_letter :: "string \<Rightarrow> bool" where
  "windows_drive_letter s =
     (case s of
        [a, b] \<Rightarrow> ascii_alpha a \<and> (b = CHR '':'' \<or> b = CHR ''|'')
      | _ \<Rightarrow> False)"

text \<open>
  File state, file slash state and file host state: only two leading slashes lead
  to a host, and an empty host or a Windows drive letter never reaches the host parser.
\<close>

definition file_host_state :: "(bool \<Rightarrow> string \<Rightarrow> bool) \<Rightarrow> string \<Rightarrow> bool" where
  "file_host_state hostp s =
     (let buffer = takeWhile (\<lambda>c. if slash c \<or> c = CHR ''?'' \<or> c = CHR ''#'' then False else True) s
      in if windows_drive_letter buffer then True
         else if buffer = [] then True
         else hostp False buffer)"

definition file_state :: "(bool \<Rightarrow> string \<Rightarrow> bool) \<Rightarrow> string \<Rightarrow> bool" where
  "file_state hostp s =
     (case s of
        a # b # rest \<Rightarrow> if slash a \<and> slash b then file_host_state hostp rest else True
      | _ \<Rightarrow> True)"

text \<open>
  The whole parser. A special scheme other than \<^verbatim>\<open>file\<close> skips every slash and
  backslash after the colon and then requires an authority; any other scheme has an
  authority only after \<^verbatim>\<open>//\<close>, and otherwise a path, which never fails.
\<close>

definition url_parses :: "(bool \<Rightarrow> string \<Rightarrow> bool) \<Rightarrow> string \<Rightarrow> bool" where
  "url_parses hostp input =
     (case split_scheme (strip_and_clean input) of
        None \<Rightarrow> False
      | Some (scheme, rest) \<Rightarrow>
          if scheme = ''file'' then file_state hostp rest
          else if scheme \<in> set special_schemes then authority_state hostp True (dropWhile slash rest)
          else
            (case rest of
               a # b # r \<Rightarrow>
                 if a = CHR ''/'' \<and> b = CHR ''/'' then authority_state hostp False r else True
             | _ \<Rightarrow> True))"

text \<open>\<^verbatim>\<open>new URL(v)\<close>: \<open>True\<close> when the object is constructed, \<open>False\<close> when it throws.\<close>

definition newURL :: "(bool \<Rightarrow> string \<Rightarrow> bool) \<Rightarrow> jsval \<Rightarrow> bool" where
  "newURL hostp v = (case toStringJS v of None \<Rightarrow> False | Some s \<Rightarrow> url_parses hostp s)"

section \<open>Requests, responses and the vision client\<close>

text \<open>
  The calls the handlers make on \<^verbatim>\<open>visionProcessor\<close>:
  \<^verbatim>\<open>analyzeImage(url, {visualFeatures, details})\<close> (the \<^verbatim>\<open>details\<close> key is optional),
  \<^verbatim>\<open>detectObjects(url)\<close>, \<^verbatim>\<open>describeImage(url)\<close> and
  \<^verbatim>\<open>recognizePrintedText(flag, url)\<close>.
\<close>

datatype call =
    AnalyzeImage jsval "string list" "string list option"
  | DetectObjects jsval
  | DescribeImage jsval
  | RecognizePrintedText bool jsval

text \<open>
  What one request sees and changes: \<^verbatim>\<open>req.body\<close>, the response (\<^verbatim>\<open>res.statusCode\<close>,
  which Express starts at 200, and the value given to \<^verbatim>\<open>res.json\<close>, \<open>None\<close> while
  nothing is sent), the remote calls issued so far, the lines written with
  \<^verbatim>\<open>console.error\<close>, and an exception that left the code of this file.
\<close>

record world =
  reqBody :: jsval
  statusCode :: nat
  jsonBody :: "jsval option"
  calls :: "call list"
  console :: "jsval list list"
  uncaught :: "jsval option"

definition initial :: "jsval \<Rightarrow> world" where
  "initial body =
     \<lparr>reqBody = body, statusCode = 200, jsonBody = None, calls = [], console = [], uncaught = None\<rparr>"

definition res_status :: "nat \<Rightarrow> world \<Rightarrow> world" where
  "res_status code w = w\<lparr>statusCode := code\<rparr>"

definition res_json :: "jsval \<Rightarrow> world \<Rightarrow> world" where
  "res_json v w = w\<lparr>jsonBody := Some v\<rparr>"

definition console_error :: "jsval list \<Rightarrow> world \<Rightarrow> world" where
  "console_error args w = w\<lparr>console := console w @ [args]\<rparr>"

text \<open>
  The collaborator is a parameter \<open>client\<close>: its answer to a call is \<open>Inr\<close> the
  result the promise resolves to or \<open>Inl\<close> the value it rejects with (or throws).
  Awaiting a call records it.
\<close>

definition await :: "(call \<Rightarrow> jsval + jsval) \<Rightarrow> call \<Rightarrow> world \<Rightarrow> (jsval + jsval) \<times> world" where
  "await client c w = (client c, w\<lparr>calls := calls w @ [c]\<rparr>)"

section \<open>The validator and the error normaliser\<close>

text \<open>
  \<^verbatim>\<open>checkImageUrl\<close> (lines 16-27). Destructuring \<^verbatim>\<open>req.body\<close> (line 17) throws
  outside the \<^verbatim>\<open>try\<close> when the body is \<^verbatim>\<open>undefined\<close> or \<^verbatim>\<open>null\<close>; the validator
  then sends nothing, and the exception goes to Express. The next stage is an
  \<^verbatim>\<open>async\<close> function, so \<^verbatim>\<open>next()\<close> itself never throws into the \<^verbatim>\<open>catch\<close>.
\<close>

definition checkImageUrl :: "(bool \<Rightarrow> string \<Rightarrow> bool) \<Rightarrow> (world \<Rightarrow> world) \<Rightarrow> world \<Rightarrow> world" where
  "checkImageUrl hostp next w =
     (case destructure (reqBody w) ''imageUrl'' of
        Inl e \<Rightarrow> w\<lparr>uncaught := Some e\<rparr>
      | Inr imageUrl \<Rightarrow>
          if truthy imageUrl then
            (if newURL hostp imageUrl then next w
             else res_json (JObj [(''error'', JStr ''Invalid URL format'')]) (res_status 400 w))
          else res_json (JObj [(''error'', JStr ''Image URL is required'')]) (res_status 400 w))"

text \<open>
  \<^verbatim>\<open>processError\<close> (lines 29-34). \<^verbatim>\<open>res.status(500)\<close> runs before the argument of
  \<^verbatim>\<open>json\<close> is evaluated; reading \<^verbatim>\<open>err.message\<close> throws when \<^verbatim>\<open>err\<close> is \<^verbatim>\<open>undefined\<close>
  or \<^verbatim>\<open>null\<close>, and then nothing is sent.
\<close>

definition processError :: "jsval \<Rightarrow> world \<Rightarrow> world" where
  "processError err w =
     (let w1 = console_error [JStr ''Error:'', err] w;
          w2 = res_status 500 w1
      in case getProp err ''message'' of
           Inl e \<Rightarrow> w2\<lparr>uncaught := Some e\<rparr>
         | Inr message \<Rightarrow>
             res_json
               (JObj [(''error'',
                  if truthy message then message
                  else JStr ''An error occurred during image analysis'')])
               w2)"

section \<open>The endpoint handlers\<close>

text \<open>
  Each handler is the body of the \<^verbatim>\<open>async\<close> function registered for its path. The
  whole body is inside \<^verbatim>\<open>try\<close>, so a TypeError from reading \<^verbatim>\<open>req.body.imageUrl\<close> or
  a property of the result goes to \<^verbatim>\<open>processError\<close> like a rejection of the call.
\<close>

text \<open>\<^verbatim>\<open>/api/vision/analyze\<close> (lines 85-108).\<close>

definition analysisFeatures :: "string list" where
  "analysisFeatures =
     [''ImageType'', ''Faces'', ''Adult'', ''Categories'', ''Color'', ''Tags'',
      ''Description'', ''Objects'', ''Brands'']"

definition specialFeatures :: "string list" where
  "specialFeatures = [''Landmarks'']"

definition analyze_handler :: "(call \<Rightarrow> jsval + jsval) \<Rightarrow> world \<Rightarrow> world" where
  "analyze_handler client w =
     (case getProp (reqBody w) ''imageUrl'' of
        Inl e \<Rightarrow> processError e w
      | Inr imageUrl \<Rightarrow>
          (case await client (AnalyzeImage imageUrl analysisFeatures (Some specialFeatures)) w of
             (Inl err, w1) \<Rightarrow> processError err w1
           | (Inr analysis, w1) \<Rightarrow> res_json analysis w1))"

text \<open>\<^verbatim>\<open>/api/vision/tags\<close> (lines 136-145).\<close>

definition tags_handler :: "(call \<Rightarrow> jsval + jsval) \<Rightarrow> world \<Rightarrow> world" where
  "tags_handler client w =
     (case getProp (reqBody w) ''imageUrl'' of
        Inl e \<Rightarrow> processError e w
      | Inr imageUrl \<Rightarrow>
          (case await client (AnalyzeImage imageUrl [''Tags''] None) w of
             (Inl err, w1) \<Rightarrow> processError err w1
           | (Inr analysis, w1) \<Rightarrow>
               (case getProp analysis ''tags'' of
                  Inl e \<Rightarrow> processError e w1
                | Inr tags \<Rightarrow> res_json tags w1)))"

text \<open>\<^verbatim>\<open>/api/vision/objects\<close> (lines 173-180).\<close>

definition objects_handler :: "(call \<Rightarrow> jsval + jsval) \<Rightarrow> world \<Rightarrow> world" where
  "objects_handler client w =
     (case getProp (reqBody w) ''imageUrl'' of
        Inl e \<Rightarrow> processError e w
      | Inr imageUrl \<Rightarrow>
          (case await client (DetectObjects imageUrl) w of
             (Inl err, w1) \<Rightarrow> processError err w1
           | (Inr analysis, w1) \<Rightarrow> res_json analysis w1))"

text \<open>\<^verbatim>\<open>/api/vision/describe\<close> (lines 208-215).\<close>

definition describe_handler :: "(call \<Rightarrow> jsval + jsval) \<Rightarrow> world \<Rightarrow> world" where
  "describe_handler client w =
     (case getProp (reqBody w) ''imageUrl'' of
        Inl e \<Rightarrow> processError e w
      | Inr imageUrl \<Rightarrow>
          (case await client (DescribeImage imageUrl) w of
             (Inl err, w1) \<Rightarrow> processError err w1
           | (Inr analysis, w1) \<Rightarrow> res_json analysis w1))"

text \<open>\<^verbatim>\<open>/api/vision/text\<close> (lines 243-250); the first argument of the call is \<^verbatim>\<open>false\<close>.\<close>

definition text_handler :: "(call \<Rightarrow> jsval + jsval) \<Rightarrow> world \<Rightarrow> world" where
  "text_handler client w =
     (case getProp (reqBody w) ''imageUrl'' of
        Inl e \<Rightarrow> processError e w
      | Inr imageUrl \<Rightarrow>
          (case await client (RecognizePrintedText False imageUrl) w of
             (Inl err, w1) \<Rightarrow> processError err w1
           | (Inr analysis, w1) \<Rightarrow> res_json analysis w1))"

text \<open>\<^verbatim>\<open>/api/vision/faces\<close> (lines 278-287).\<close>

definition faces_handler :: "(call \<Rightarrow> jsval + jsval) \<Rightarrow> world \<Rightarrow> world" where
  "faces_handler client w =
     (case getProp (reqBody w) ''imageUrl'' of
        Inl e \<Rightarrow> processError e w
      | Inr imageUrl \<Rightarrow>
          (case await client (AnalyzeImage imageUrl [''Faces''] None) w of
             (Inl err, w1) \<Rightarrow> processError err w1
           | (Inr analysis, w1) \<Rightarrow>
               (case getProp analysis ''faces'' of
                  Inl e \<Rightarrow> processError e w1
                | Inr faces \<Rightarrow> res_json faces w1)))"

text \<open>\<^verbatim>\<open>/api/vision/colors\<close> (lines 315-324).\<close>

definition colors_handler :: "(call \<Rightarrow> jsval + jsval) \<Rightarrow> world \<Rightarrow> world" where
  "colors_handler client w =
     (case getProp (reqBody w) ''imageUrl'' of
        Inl e \<Rightarrow> processError e w
      | Inr imageUrl \<Rightarrow>
          (case await client (AnalyzeImage imageUrl [''Color''] None) w of
             (Inl err, w1) \<Rightarrow> processError err w1
           | (Inr analysis, w1) \<Rightarrow>
               (case getProp analysis ''color'' of
                  Inl e \<Rightarrow> processError e w1
                | Inr color \<Rightarrow> res_json color w1)))"

section \<open>The routes\<close>

text \<open>
  The seven \<^verbatim>\<open>app.post(path, checkImageUrl, handler)\<close> registrations, and the call
  each handler issues for the image URL it reads.
\<close>

datatype endpoint = Analyze | Tags | Objects | Describe | Text | Faces | Colors

definition endpoints :: "endpoint list" where
  "endpoints = [Analyze, Tags, Objects, Describe, Text, Faces, Colors]"

fun path :: "endpoint \<Rightarrow> string" where
  "path Analyze = ''/api/vision/analyze''"
| "path Tags = ''/api/vision/tags''"
| "path Objects = ''/api/vision/objects''"
| "path Describe = ''/api/vision/describe''"
| "path Text = ''/api/vision/text''"
| "path Faces = ''/api/vision/faces''"
| "path Colors = ''/api/vision/colors''"

fun handler :: "(call \<Rightarrow> jsval + jsval) \<Rightarrow> endpoint \<Rightarrow> world \<Rightarrow> world" where
  "handler client Analyze = analyze_handler client"
| "handler client Tags = tags_handler client"
| "handler client Objects = objects_handler client"
| "handler client Describe = describe_handler client"
| "handler client Text = text_handler client"
| "handler client Faces = faces_handler client"
| "handler client Colors = colors_handler client"

definition post ::
  "(bool \<Rightarrow> string \<Rightarrow> bool) \<Rightarrow> (call \<Rightarrow> jsval + jsval) \<Rightarrow> endpoint \<Rightarrow> world \<Rightarrow> world" where
  "post hostp client ep w = checkImageUrl hostp (handler client ep) w"

fun issued :: "endpoint \<Rightarrow> jsval \<Rightarrow> call" where
  "issued Analyze url = AnalyzeImage url analysisFeatures (Some specialFeatures)"
| "issued Tags url = AnalyzeImage url [''Tags''] None"
| "issued Objects url = DetectObjects url"
| "issued Describe url = DescribeImage url"
| "issued Text url = RecognizePrintedText False url"
| "issued Faces url = AnalyzeImage url [''Faces''] None"
| "issued Colors url = AnalyzeImage url [''Color''] None"

text \<open>
  \<^verbatim>\<open>GET /\<close> (lines 327-342). \<open>env\<close> is \<^verbatim>\<open>process.env\<close>; an unset or empty
  \<^verbatim>\<open>API_BASE_URL\<close> is falsy and gives the default.
\<close>

definition root_handler :: "(string \<rightharpoonup> string) \<Rightarrow> world \<Rightarrow> world" where
  "root_handler env w =
     res_json
       (JObj
          [(''message'', JStr ''Welcome to Azure AI Image Analysis API''),
           (''documentation'',
              JStr ((case env ''API_BASE_URL'' of
                       None \<Rightarrow> ''http://157.230.209.216:5000/''
                     | Some base \<Rightarrow> if base = [] then ''http://157.230.209.216:5000/'' else base)
                    @ ''/api-docs'')),
           (''note'', JStr ''All endpoints need to be tested using Postman.''),
           (''endpoints'',
              JObj
                [(''analyze'', JStr ''/api/vision/analyze''),
                 (''tags'', JStr ''/api/vision/tags''),
                 (''objects'', JStr ''/api/vision/objects''),
                 (''describe'', JStr ''/api/vision/describe''),
                 (''text'', JStr ''/api/vision/text''),
                 (''faces'', JStr ''/api/vision/faces''),
                 (''colors'', JStr ''/api/vision/colors'')])])
       w"

section \<open>Sample host parser and collaborators\<close>

text \<open>
  Concrete parameters for the instances below. \<open>plain_domain\<close> accepts the non-empty
  hosts made of lower-case ASCII letters and dots, which the URL Standard's host parser
  accepts as domains, and rejects every other host.
\<close>

definition plain_domain :: "bool \<Rightarrow> string \<Rightarrow> bool" where
  "plain_domain isOpaque input =
     (if input = [] then False else list_all (\<lambda>c. c \<in> set (ascii_lower @ ''.'')) input)"

definition sample_analysis :: jsval where
  "sample_analysis =
     JObj
       [(''tags'', JArr [JObj [(''name'', JStr ''cat''), (''confidence'', JNum ''0.99'')]]),
        (''faces'', JArr []),
        (''color'', JObj [(''dominantColorForeground'', JStr ''Black'')])]"

text \<open>A collaborator that resolves every call with \<open>sample_analysis\<close>.\<close>

definition sample_client :: "call \<Rightarrow> jsval + jsval" where
  "sample_client c = Inr sample_analysis"

text \<open>A collaborator that resolves every call with an object without properties.\<close>

definition bare_client :: "call \<Rightarrow> jsval + jsval" where
  "bare_client c = Inr (JObj [])"

text \<open>A collaborator that rejects every call with an error carrying a message.\<close>

definition failing_client :: "call \<Rightarrow> jsval + jsval" where
  "failing_client c = Inl (JObj [(''name'', JStr ''RestError''), (''message'', JStr ''Access denied'')])"

section \<open>Evaluation lemmas\<close>

lemmas res_defs = res_status_def res_json_def console_error_def await_def

lemmas handler_defs =
  analyze_handler_def tags_handler_def objects_handler_def describe_handler_def
  text_handler_def faces_handler_def colors_handler_def

lemmas url_defs =
  newURL_def url_parses_def split_scheme_def strip_and_clean_def c0_control_or_space_def
  tab_or_newline_def ascii_alpha_def ascii_upper_def ascii_lower_def scheme_char_def
  ascii_digit_def ascii_lowercase_def special_schemes_def slash_def authority_state_def
  authority_end_def host_state_def port_state_def digit_value_def file_state_def
  file_host_state_def windows_drive_letter_def

text \<open>Where the property can be read, the destructuring reads it.\<close>

lemma destructure_readable: "getProp v k = Inr x \<Longrightarrow> destructure v k = Inr x"
  by (cases v) simp_all

lemma checkImageUrl_pass:
  assumes "getProp (reqBody w) ''imageUrl'' = Inr url" and "truthy url" and "newURL hostp url"
  shows "checkImageUrl hostp next w = next w"
  using assms(2,3) by (simp add: checkImageUrl_def destructure_readable [OF assms(1)])

lemma checkImageUrl_falsy:
  assumes "getProp (reqBody w) ''imageUrl'' = Inr v" and "\<not> truthy v"
  shows "checkImageUrl hostp next w =
     res_json (JObj [(''error'', JStr ''Image URL is required'')]) (res_status 400 w)"
  using assms(2) by (simp add: checkImageUrl_def destructure_readable [OF assms(1)])

lemma checkImageUrl_unparsable:
  assumes "getProp (reqBody w) ''imageUrl'' = Inr v" and "truthy v" and "\<not> newURL hostp v"
  shows "checkImageUrl hostp next w =
     res_json (JObj [(''error'', JStr ''Invalid URL format'')]) (res_status 400 w)"
  using assms(2,3) by (simp add: checkImageUrl_def destructure_readable [OF assms(1)])

lemma getProp_readable:
  "err \<noteq> JUndefined \<Longrightarrow> err \<noteq> JNull \<Longrightarrow> \<exists>message. getProp err k = Inr message"
  by (cases err) simp_all

lemma processError_readable:
  "getProp err ''message'' = Inr message \<Longrightarrow>
   processError err w =
     w\<lparr>statusCode := 500,
       jsonBody := Some (JObj [(''error'',
          if truthy message then message else JStr ''An error occurred during image analysis'')]),
       console := console w @ [[JStr ''Error:'', err]]\<rparr>"
  by (simp add: processError_def res_defs)

lemma handler_failure:
  "getProp (reqBody w) ''imageUrl'' = Inr url \<Longrightarrow> client (issued ep url) = Inl err \<Longrightarrow>
   handler client ep w = processError err (w\<lparr>calls := calls w @ [issued ep url]\<rparr>)"
  by (cases ep) (simp_all add: handler_defs res_defs)

lemma handler_calls:
  "getProp (reqBody w) ''imageUrl'' = Inr url \<Longrightarrow>
   calls (handler client ep w) = calls w @ [issued ep url]"
  by (cases ep; cases "client (issued ep url)")
     (simp_all add: handler_defs res_defs processError_def Let_def split: sum.splits)

text \<open>The handlers that answer with the whole result.\<close>

lemma analyze_success:
  "getProp (reqBody w) ''imageUrl'' = Inr url \<Longrightarrow>
   client (AnalyzeImage url analysisFeatures (Some specialFeatures)) = Inr analysis \<Longrightarrow>
   analyze_handler client w =
     w\<lparr>jsonBody := Some analysis,
       calls := calls w @ [AnalyzeImage url analysisFeatures (Some specialFeatures)]\<rparr>"
  by (simp add: analyze_handler_def res_defs)

lemma objects_success:
  "getProp (reqBody w) ''imageUrl'' = Inr url \<Longrightarrow> client (DetectObjects url) = Inr analysis \<Longrightarrow>
   objects_handler client w = w\<lparr>jsonBody := Some analysis, calls := calls w @ [DetectObjects url]\<rparr>"
  by (simp add: objects_handler_def res_defs)

lemma describe_success:
  "getProp (reqBody w) ''imageUrl'' = Inr url \<Longrightarrow> client (DescribeImage url) = Inr analysis \<Longrightarrow>
   describe_handler client w = w\<lparr>jsonBody := Some analysis, calls := calls w @ [DescribeImage url]\<rparr>"
  by (simp add: describe_handler_def res_defs)

lemma text_success:
  "getProp (reqBody w) ''imageUrl'' = Inr url \<Longrightarrow>
   client (RecognizePrintedText False url) = Inr analysis \<Longrightarrow>
   text_handler client w =
     w\<lparr>jsonBody := Some analysis, calls := calls w @ [RecognizePrintedText False url]\<rparr>"
  by (simp add: text_handler_def res_defs)

text \<open>The handlers that answer with one property of the result.\<close>

lemma tags_success:
  "getProp (reqBody w) ''imageUrl'' = Inr url \<Longrightarrow>
   client (AnalyzeImage url [''Tags''] None) = Inr analysis \<Longrightarrow>
   getProp analysis ''tags'' = Inr x \<Longrightarrow>
   tags_handler client w =
     w\<lparr>jsonBody := Some x, calls := calls w @ [AnalyzeImage url [''Tags''] None]\<rparr>"
  by (simp add: tags_handler_def res_defs)

lemma faces_success:
  "getProp (reqBody w) ''imageUrl'' = Inr url \<Longrightarrow>
   client (AnalyzeImage url [''Faces''] None) = Inr analysis \<Longrightarrow>
   getProp analysis ''faces'' = Inr x \<Longrightarrow>
   faces_handler client w =
     w\<lparr>jsonBody := Some x, calls := calls w @ [AnalyzeImage url [''Faces''] None]\<rparr>"
  by (simp add: faces_handler_def res_defs)

lemma colors_success:
  "getProp (reqBody w) ''imageUrl'' = Inr url \<Longrightarrow>
   client (AnalyzeImage url [''Color''] None) = Inr analysis \<Longrightarrow>
   getProp analysis ''color'' = Inr x \<Longrightarrow>
   colors_handler client w =
     w\<lparr>jsonBody := Some x, calls := calls w @ [AnalyzeImage url [''Color''] None]\<rparr>"
  by (simp add: colors_handler_def res_defs)

text \<open>A request whose image URL passes the validator reaches its handler.\<close>

lemma post_accepted:
  "map_of kvs ''imageUrl'' = Some url \<Longrightarrow> truthy url \<Longrightarrow> newURL hostp url \<Longrightarrow>
   post hostp client ep (initial (JObj kvs)) = handler client ep (initial (JObj kvs))"
  by (simp add: post_def checkImageUrl_def initial_def)

lemma post_falsy:
  assumes "getProp body ''imageUrl'' = Inr v" and "\<not> truthy v"
  shows "post hostp client ep (initial body) =
     (initial body)\<lparr>statusCode := 400,
       jsonBody := Some (JObj [(''error'', JStr ''Image URL is required'')])\<rparr>"
  using assms(2)
  by (simp add: post_def checkImageUrl_def initial_def res_defs destructure_readable [OF assms(1)])

lemma post_unparsable:
  assumes "getProp body ''imageUrl'' = Inr v" and "truthy v" and "\<not> newURL hostp v"
  shows "post hostp client ep (initial body) =
     (initial body)\<lparr>statusCode := 400,
       jsonBody := Some (JObj [(''error'', JStr ''Invalid URL format'')])\<rparr>"
  using assms(2,3)
  by (simp add: post_def checkImageUrl_def initial_def res_defs destructure_readable [OF assms(1)])

text \<open>A URL without an authority is accepted without consulting the host parser.\<close>

lemma mailto_parses: "newURL hostp (JStr ''mailto:x'')"
  by (simp add: url_defs)

text \<open>Without a colon there is no scheme, and the parser fails whatever the host parser does.\<close>

lemma split_scheme_colon: "split_scheme s = Some (scheme, rest) \<Longrightarrow> CHR '':'' \<in> set s"
proof -
  assume a: "split_scheme s = Some (scheme, rest)"
  then obtain c cs where s: "s = c # cs"
    by (cases s) (simp_all add: split_scheme_def)
  from a s obtain r where "dropWhile scheme_char cs = CHR '':'' # r"
    by (auto simp: split_scheme_def split: if_splits list.splits)
  then have "CHR '':'' \<in> set (dropWhile scheme_char cs)"
    by simp
  then have "CHR '':'' \<in> set cs"
    using set_dropWhileD by fastforce
  with s show ?thesis by simp
qed

lemma url_needs_colon: "CHR '':'' \<notin> set input \<Longrightarrow> \<not> url_parses hostp input"
proof
  assume no: "CHR '':'' \<notin> set input" and p: "url_parses hostp input"
  from p obtain scheme rest where "split_scheme (strip_and_clean input) = Some (scheme, rest)"
    by (auto simp: url_parses_def split: option.splits)
  then have "CHR '':'' \<in> set (strip_and_clean input)"
    by (rule split_scheme_colon)
  then have "CHR '':'' \<in> set input"
    by (auto simp: strip_and_clean_def dest!: set_dropWhileD)
  with no show False by simp
qed

section \<open>The validator's rejections\<close>

text \<open>
  Where \<^verbatim>\<open>imageUrl\<close> can be read from the body (\<^verbatim>\<open>req.body\<close> is an object or an
  array) and is absent or the empty string, each of the seven POST endpoints answers
  400 with the error \<^verbatim>\<open>Image URL is required\<close> and makes no call on the vision client.
\<close>

lemma readable_body_without_imageUrl_rejected:
  assumes "getProp body ''imageUrl'' = Inr JUndefined \<or> getProp body ''imageUrl'' = Inr (JStr [])"
  shows "statusCode (post hostp client ep (initial body)) = 400 \<and>
         jsonBody (post hostp client ep (initial body)) =
           Some (JObj [(''error'', JStr ''Image URL is required'')]) \<and>
         calls (post hostp client ep (initial body)) = []"
proof -
  from assms obtain v where v: "getProp body ''imageUrl'' = Inr v" "\<not> truthy v"
    by auto
  show ?thesis
    unfolding post_falsy [OF v] by (simp add: initial_def)
qed

text \<open>The bodies \<^verbatim>\<open>{}\<close>, \<^verbatim>\<open>{ "imageUrl": "" }\<close> and \<^verbatim>\<open>[]\<close>.\<close>

lemma readable_body_without_imageUrl_examples:
  "statusCode (post plain_domain sample_client Tags (initial (JObj []))) = 400 \<and>
   calls (post plain_domain sample_client Tags (initial (JObj []))) = [] \<and>
   statusCode (post plain_domain sample_client Analyze (initial (JObj [(''imageUrl'', JStr [])]))) = 400 \<and>
   calls (post plain_domain sample_client Analyze (initial (JObj [(''imageUrl'', JStr [])]))) = [] \<and>
   statusCode (post plain_domain sample_client Text (initial (JArr []))) = 400 \<and>
   calls (post plain_domain sample_client Text (initial (JArr []))) = []"
  using readable_body_without_imageUrl_rejected [where body = "JObj []" and hostp = plain_domain
          and client = sample_client and ep = Tags]
        readable_body_without_imageUrl_rejected [where body = "JObj [(''imageUrl'', JStr [])]"
          and hostp = plain_domain and client = sample_client and ep = Analyze]
        readable_body_without_imageUrl_rejected [where body = "JArr []" and hostp = plain_domain
          and client = sample_client and ep = Text]
  by simp

text \<open>
  C1. The claim is that every request in which \<^verbatim>\<open>imageUrl\<close> is absent gets, on each
  of the seven POST endpoints, the status 400 and a JSON body with an \<^verbatim>\<open>error\<close>
  field. It fails for a POST without a JSON body, where \<^verbatim>\<open>req.body\<close> is
  \<^verbatim>\<open>undefined\<close>: line 17 destructures the body before the \<^verbatim>\<open>try\<close>, so on every
  endpoint the validator throws, sets no status 400 and sends no JSON body (the
  vision client is not called either).
\<close>

theorem missing_body_escapes_validator:
  "statusCode (post hostp client ep (initial JUndefined)) = 200 \<and>
   jsonBody (post hostp client ep (initial JUndefined)) = None \<and>
   uncaught (post hostp client ep (initial JUndefined)) \<noteq> None \<and>
   calls (post hostp client ep (initial JUndefined)) = []"
  by (simp add: post_def checkImageUrl_def initial_def)

text \<open>
  C2, as amended. The validator's notion of a malformed \<^verbatim>\<open>imageUrl\<close> is that
  \<^verbatim>\<open>new URL(imageUrl)\<close> throws. For every request body whose \<^verbatim>\<open>imageUrl\<close> is truthy
  and on which the constructor throws, each endpoint answers 400 with the error
  \<^verbatim>\<open>Invalid URL format\<close> and makes no call on the vision client.
\<close>

theorem unparsable_imageUrl_rejected:
  assumes "map_of kvs ''imageUrl'' = Some v" and "truthy v" and "\<not> newURL hostp v"
  shows "statusCode (post hostp client ep (initial (JObj kvs))) = 400 \<and>
         jsonBody (post hostp client ep (initial (JObj kvs))) =
           Some (JObj [(''error'', JStr ''Invalid URL format'')]) \<and>
         calls (post hostp client ep (initial (JObj kvs))) = []"
proof -
  from assms(1) have v: "getProp (JObj kvs) ''imageUrl'' = Inr v"
    by simp
  show ?thesis
    unfolding post_unparsable [OF v assms(2) assms(3)] by (simp add: initial_def)
qed

text \<open>The witness takes the two malformed inputs the specification names.\<close>

theorem unparsable_imageUrl_rejected_witness:
  "map_of [(''imageUrl'', JStr ''not a url'')] ''imageUrl'' = Some (JStr ''not a url'') \<and>
   truthy (JStr ''not a url'') \<and> \<not> newURL plain_domain (JStr ''not a url'') \<and>
   statusCode (post plain_domain sample_client Faces
     (initial (JObj [(''imageUrl'', JStr ''not a url'')]))) = 400 \<and>
   calls (post plain_domain sample_client Faces
     (initial (JObj [(''imageUrl'', JStr ''not a url'')]))) = [] \<and>
   truthy (JStr ''://bad'') \<and> \<not> newURL plain_domain (JStr ''://bad'') \<and>
   statusCode (post plain_domain sample_client Text
     (initial (JObj [(''imageUrl'', JStr ''://bad'')]))) = 400 \<and>
   calls (post plain_domain sample_client Text
     (initial (JObj [(''imageUrl'', JStr ''://bad'')]))) = []"
proof -
  have a: "\<not> newURL plain_domain (JStr ''not a url'')"
    by (simp add: url_defs)
  have b: "\<not> newURL plain_domain (JStr ''://bad'')"
    by (simp add: url_defs)
  show ?thesis
    using a b
      unparsable_imageUrl_rejected [where kvs = "[(''imageUrl'', JStr ''not a url'')]"
        and v = "JStr ''not a url''" and hostp = plain_domain and client = sample_client
        and ep = Faces]
      unparsable_imageUrl_rejected [where kvs = "[(''imageUrl'', JStr ''://bad'')]"
        and v = "JStr ''://bad''" and hostp = plain_domain and client = sample_client
        and ep = Text]
    by simp
qed

text \<open>
  C2, as the specification states it, fails: \<^verbatim>\<open>mailto:x\<close> has a scheme and no host,
  so it is not a valid URL where validity requires a scheme and a host; yet the
  constructor accepts it, the request reaches the handler, the vision client is
  called with it and the answer is 200.
\<close>

theorem hostless_imageUrl_accepted:
  "statusCode (post plain_domain sample_client Tags
     (initial (JObj [(''imageUrl'', JStr ''mailto:x'')]))) = 200 \<and>
   calls (post plain_domain sample_client Tags
     (initial (JObj [(''imageUrl'', JStr ''mailto:x'')]))) =
     [AnalyzeImage (JStr ''mailto:x'') [''Tags''] None]"
proof -
  have "newURL plain_domain (JStr ''mailto:x'')"
    by (rule mailto_parses)
  then have "post plain_domain sample_client Tags (initial (JObj [(''imageUrl'', JStr ''mailto:x'')])) =
      tags_handler sample_client (initial (JObj [(''imageUrl'', JStr ''mailto:x'')]))"
    by (simp add: post_accepted)
  then show ?thesis
    by (simp add: tags_handler_def res_defs sample_client_def sample_analysis_def initial_def)
qed

text \<open>
  C9, as amended. A missing or empty \<^verbatim>\<open>imageUrl\<close> and a malformed one both get the
  status 400 and a body \<^verbatim>\<open>{ "error": message }\<close> with that one key; the message is
  \<^verbatim>\<open>Image URL is required\<close> for the first kind and \<^verbatim>\<open>Invalid URL format\<close> for the
  second, so the status is shared and the body tells the kinds apart.
\<close>

theorem validation_failures_share_status:
  assumes "map_of kvs ''imageUrl'' = None \<or> map_of kvs ''imageUrl'' = Some (JStr [])"
    and "map_of kvs' ''imageUrl'' = Some v" and "truthy v" and "\<not> newURL hostp v"
  shows "statusCode (post hostp client ep (initial (JObj kvs))) = 400 \<and>
         statusCode (post hostp client ep' (initial (JObj kvs'))) = 400 \<and>
         jsonBody (post hostp client ep (initial (JObj kvs))) =
           Some (JObj [(''error'', JStr ''Image URL is required'')]) \<and>
         jsonBody (post hostp client ep' (initial (JObj kvs'))) =
           Some (JObj [(''error'', JStr ''Invalid URL format'')]) \<and>
         jsonBody (post hostp client ep (initial (JObj kvs))) \<noteq>
           jsonBody (post hostp client ep' (initial (JObj kvs')))"
proof -
  from assms(1) obtain u where u: "getProp (JObj kvs) ''imageUrl'' = Inr u" "\<not> truthy u"
    by auto
  from assms(2) have v: "getProp (JObj kvs') ''imageUrl'' = Inr v"
    by simp
  show ?thesis
    unfolding post_falsy [OF u] post_unparsable [OF v assms(3) assms(4)]
    by (simp add: initial_def)
qed

theorem validation_failures_share_status_witness:
  "map_of [] ''imageUrl'' = (None :: jsval option) \<and>
   map_of [(''imageUrl'', JStr ''not a url'')] ''imageUrl'' = Some (JStr ''not a url'') \<and>
   truthy (JStr ''not a url'') \<and> \<not> newURL plain_domain (JStr ''not a url'') \<and>
   statusCode (post plain_domain sample_client Objects (initial (JObj []))) = 400 \<and>
   statusCode (post plain_domain sample_client Objects
     (initial (JObj [(''imageUrl'', JStr ''not a url'')]))) = 400 \<and>
   jsonBody (post plain_domain sample_client Objects (initial (JObj []))) =
     Some (JObj [(''error'', JStr ''Image URL is required'')]) \<and>
   jsonBody (post plain_domain sample_client Objects
     (initial (JObj [(''imageUrl'', JStr ''not a url'')]))) =
     Some (JObj [(''error'', JStr ''Invalid URL format'')])"
proof -
  have a: "\<not> newURL plain_domain (JStr ''not a url'')"
    by (simp add: url_defs)
  show ?thesis
    using a validation_failures_share_status [where kvs = "[]"
        and kvs' = "[(''imageUrl'', JStr ''not a url'')]" and v = "JStr ''not a url''"
        and hostp = plain_domain and client = sample_client and ep = Objects and ep' = Objects]
    by simp
qed

text \<open>
  C9, as the specification states it, fails: on the same endpoint the response to a
  body without \<^verbatim>\<open>imageUrl\<close> differs from the response to a body with a malformed one.
\<close>

theorem validation_failures_distinguished:
  "jsonBody (post plain_domain sample_client Describe (initial (JObj []))) \<noteq>
   jsonBody (post plain_domain sample_client Describe
     (initial (JObj [(''imageUrl'', JStr ''not a url'')])))"
proof -
  have a: "\<not> newURL plain_domain (JStr ''not a url'')"
    by (simp add: url_defs)
  have "jsonBody (post plain_domain sample_client Describe (initial (JObj []))) =
      Some (JObj [(''error'', JStr ''Image URL is required'')])"
    by (simp add: post_falsy [where v = JUndefined])
  moreover have "jsonBody (post plain_domain sample_client Describe
      (initial (JObj [(''imageUrl'', JStr ''not a url'')]))) =
      Some (JObj [(''error'', JStr ''Invalid URL format'')])"
    using a by (simp add: post_unparsable [where v = "JStr ''not a url''"])
  ultimately show ?thesis
    by simp
qed


section \<open>The validator's acceptance\<close>

text \<open>
  C8. When the \<^verbatim>\<open>imageUrl\<close> of a request passes validation, the validator hands the
  request to the next stage as it received it: the next stage runs on the unchanged
  state (request body, response, call log and console), so the validator has no effect
  of its own, and the image URL in the call the handler then issues is the validated one.
\<close>

theorem validator_forwards_request_unchanged:
  assumes "getProp (reqBody w) ''imageUrl'' = Inr url" and "truthy url" and "newURL hostp url"
  shows "checkImageUrl hostp next w = next w \<and>
         calls (post hostp client ep w) = calls w @ [issued ep url]"
proof -
  have "post hostp client ep w = handler client ep w"
    unfolding post_def by (rule checkImageUrl_pass [OF assms])
  then show ?thesis
    by (simp add: checkImageUrl_pass [OF assms] handler_calls [OF assms(1)])
qed

theorem validator_forwards_request_unchanged_witness:
  "getProp (reqBody (initial (JObj [(''imageUrl'', JStr ''https://example.com/cat.jpg'')])))
     ''imageUrl'' = Inr (JStr ''https://example.com/cat.jpg'') \<and>
   truthy (JStr ''https://example.com/cat.jpg'') \<and>
   newURL plain_domain (JStr ''https://example.com/cat.jpg'') \<and>
   checkImageUrl plain_domain (describe_handler sample_client)
     (initial (JObj [(''imageUrl'', JStr ''https://example.com/cat.jpg'')])) =
   describe_handler sample_client
     (initial (JObj [(''imageUrl'', JStr ''https://example.com/cat.jpg'')])) \<and>
   calls (post plain_domain sample_client Describe
     (initial (JObj [(''imageUrl'', JStr ''https://example.com/cat.jpg'')]))) =
   [DescribeImage (JStr ''https://example.com/cat.jpg'')]"
proof -
  have a: "newURL plain_domain (JStr ''https://example.com/cat.jpg'')"
    by (simp add: url_defs plain_domain_def)
  have b: "getProp (reqBody (initial (JObj [(''imageUrl'', JStr ''https://example.com/cat.jpg'')])))
     ''imageUrl'' = Inr (JStr ''https://example.com/cat.jpg'')"
    by (simp add: initial_def)
  have c: "calls (initial (JObj [(''imageUrl'', JStr ''https://example.com/cat.jpg'')])) = []"
    by (simp add: initial_def)
  show ?thesis
    using a b c
      validator_forwards_request_unchanged
        [of "initial (JObj [(''imageUrl'', JStr ''https://example.com/cat.jpg'')])"
            "JStr ''https://example.com/cat.jpg''" plain_domain
            "describe_handler sample_client" sample_client Describe]
    by simp
qed

section \<open>Successful calls\<close>

text \<open>
  C3. For a valid \<^verbatim>\<open>imageUrl\<close>, when the composite analysis resolves with a result
  object that has the fields \<^verbatim>\<open>tags\<close>, \<^verbatim>\<open>faces\<close> and \<^verbatim>\<open>color\<close>, the endpoint
  \<^verbatim>\<open>/api/vision/tags\<close> answers with exactly the value of \<^verbatim>\<open>tags\<close>,
  \<^verbatim>\<open>/api/vision/faces\<close> with that of \<^verbatim>\<open>faces\<close> and \<^verbatim>\<open>/api/vision/colors\<close> with that
  of \<^verbatim>\<open>color\<close>, each with status 200. (Each endpoint makes its own call, so the
  theorem lets the three results differ.)
\<close>

theorem projections_answer_with_subfield:
  assumes "map_of kvs ''imageUrl'' = Some url" and "truthy url" and "newURL hostp url"
    and "client (issued Tags url) = Inr (JObj rt)" and "map_of rt ''tags'' = Some tags"
    and "client (issued Faces url) = Inr (JObj rf)" and "map_of rf ''faces'' = Some faces"
    and "client (issued Colors url) = Inr (JObj rc)" and "map_of rc ''color'' = Some color"
  shows "statusCode (post hostp client Tags (initial (JObj kvs))) = 200 \<and>
         jsonBody (post hostp client Tags (initial (JObj kvs))) = Some tags \<and>
         statusCode (post hostp client Faces (initial (JObj kvs))) = 200 \<and>
         jsonBody (post hostp client Faces (initial (JObj kvs))) = Some faces \<and>
         statusCode (post hostp client Colors (initial (JObj kvs))) = 200 \<and>
         jsonBody (post hostp client Colors (initial (JObj kvs))) = Some color"
proof -
  have u: "getProp (reqBody (initial (JObj kvs))) ''imageUrl'' = Inr url"
    using assms(1) by (simp add: initial_def)
  have t: "post hostp client Tags (initial (JObj kvs)) =
      (initial (JObj kvs))\<lparr>jsonBody := Some tags,
        calls := calls (initial (JObj kvs)) @ [AnalyzeImage url [''Tags''] None]\<rparr>"
    unfolding post_accepted [OF assms(1,2,3)] handler.simps
    by (rule tags_success [where client = client and analysis = "JObj rt", OF u]) (use assms(4,5) in simp_all)
  have f: "post hostp client Faces (initial (JObj kvs)) =
      (initial (JObj kvs))\<lparr>jsonBody := Some faces,
        calls := calls (initial (JObj kvs)) @ [AnalyzeImage url [''Faces''] None]\<rparr>"
    unfolding post_accepted [OF assms(1,2,3)] handler.simps
    by (rule faces_success [where client = client and analysis = "JObj rf", OF u]) (use assms(6,7) in simp_all)
  have c: "post hostp client Colors (initial (JObj kvs)) =
      (initial (JObj kvs))\<lparr>jsonBody := Some color,
        calls := calls (initial (JObj kvs)) @ [AnalyzeImage url [''Color''] None]\<rparr>"
    unfolding post_accepted [OF assms(1,2,3)] handler.simps
    by (rule colors_success [where client = client and analysis = "JObj rc", OF u]) (use assms(8,9) in simp_all)
  show ?thesis
    unfolding t f c by (simp add: initial_def)
qed

theorem projections_answer_with_subfield_witness:
  "truthy (JStr ''https://example.com/cat.jpg'') \<and>
   newURL plain_domain (JStr ''https://example.com/cat.jpg'') \<and>
   sample_client (issued Tags (JStr ''https://example.com/cat.jpg'')) = Inr sample_analysis \<and>
   getProp sample_analysis ''faces'' = Inr (JArr []) \<and>
   statusCode (post plain_domain sample_client Tags
     (initial (JObj [(''imageUrl'', JStr ''https://example.com/cat.jpg'')]))) = 200 \<and>
   jsonBody (post plain_domain sample_client Tags
     (initial (JObj [(''imageUrl'', JStr ''https://example.com/cat.jpg'')]))) =
     Some (JArr [JObj [(''name'', JStr ''cat''), (''confidence'', JNum ''0.99'')]]) \<and>
   jsonBody (post plain_domain sample_client Faces
     (initial (JObj [(''imageUrl'', JStr ''https://example.com/cat.jpg'')]))) = Some (JArr []) \<and>
   jsonBody (post plain_domain sample_client Colors
     (initial (JObj [(''imageUrl'', JStr ''https://example.com/cat.jpg'')]))) =
     Some (JObj [(''dominantColorForeground'', JStr ''Black'')])"
proof -
  have a: "newURL plain_domain (JStr ''https://example.com/cat.jpg'')"
    by (simp add: url_defs plain_domain_def)
  show ?thesis
    using a
      projections_answer_with_subfield [where hostp = plain_domain and client = sample_client
        and kvs = "[(''imageUrl'', JStr ''https://example.com/cat.jpg'')]"
        and url = "JStr ''https://example.com/cat.jpg''"
        and rt = "[(''tags'', JArr [JObj [(''name'', JStr ''cat''), (''confidence'', JNum ''0.99'')]]),
                   (''faces'', JArr []),
                   (''color'', JObj [(''dominantColorForeground'', JStr ''Black'')])]"
        and rf = "[(''tags'', JArr [JObj [(''name'', JStr ''cat''), (''confidence'', JNum ''0.99'')]]),
                   (''faces'', JArr []),
                   (''color'', JObj [(''dominantColorForeground'', JStr ''Black'')])]"
        and rc = "[(''tags'', JArr [JObj [(''name'', JStr ''cat''), (''confidence'', JNum ''0.99'')]]),
                   (''faces'', JArr []),
                   (''color'', JObj [(''dominantColorForeground'', JStr ''Black'')])]"
        and tags = "JArr [JObj [(''name'', JStr ''cat''), (''confidence'', JNum ''0.99'')]]"
        and faces = "JArr []"
        and color = "JObj [(''dominantColorForeground'', JStr ''Black'')]"]
    by (simp add: sample_client_def sample_analysis_def)
qed

text \<open>
  C4. For a valid \<^verbatim>\<open>imageUrl\<close>, \<^verbatim>\<open>/api/vision/analyze\<close> issues exactly one remote
  call, the composite analysis with the visual features ImageType, Faces, Adult,
  Categories, Color, Tags, Description, Objects, Brands and the details Landmarks;
  when that call succeeds, the answer is 200 with the result as it was returned.
\<close>

theorem analyze_issues_one_composite_call:
  assumes "map_of kvs ''imageUrl'' = Some url" and "truthy url" and "newURL hostp url"
  shows "calls (post hostp client Analyze (initial (JObj kvs))) =
           [AnalyzeImage url
              [''ImageType'', ''Faces'', ''Adult'', ''Categories'', ''Color'', ''Tags'',
               ''Description'', ''Objects'', ''Brands'']
              (Some [''Landmarks''])] \<and>
         (\<forall>analysis.
            client (AnalyzeImage url
              [''ImageType'', ''Faces'', ''Adult'', ''Categories'', ''Color'', ''Tags'',
               ''Description'', ''Objects'', ''Brands'']
              (Some [''Landmarks''])) = Inr analysis \<longrightarrow>
            statusCode (post hostp client Analyze (initial (JObj kvs))) = 200 \<and>
            jsonBody (post hostp client Analyze (initial (JObj kvs))) = Some analysis)"
proof -
  have u: "getProp (reqBody (initial (JObj kvs))) ''imageUrl'' = Inr url"
    using assms(1) by (simp add: initial_def)
  have p: "post hostp client Analyze (initial (JObj kvs)) =
      analyze_handler client (initial (JObj kvs))"
    by (simp add: post_accepted [OF assms])
  have "calls (handler client Analyze (initial (JObj kvs))) =
      calls (initial (JObj kvs)) @ [issued Analyze url]"
    by (rule handler_calls [OF u])
  then have one: "calls (analyze_handler client (initial (JObj kvs))) =
      [AnalyzeImage url analysisFeatures (Some specialFeatures)]"
    by (simp add: initial_def)
  have ok: "statusCode (analyze_handler client (initial (JObj kvs))) = 200 \<and>
      jsonBody (analyze_handler client (initial (JObj kvs))) = Some analysis"
    if "client (AnalyzeImage url analysisFeatures (Some specialFeatures)) = Inr analysis"
    for analysis
    unfolding analyze_success [where client = client, OF u that] by (simp add: initial_def)
  show ?thesis
    unfolding p using one ok by (simp add: analysisFeatures_def specialFeatures_def)
qed

theorem analyze_issues_one_composite_call_witness:
  "truthy (JStr ''https://example.com/cat.jpg'') \<and>
   newURL plain_domain (JStr ''https://example.com/cat.jpg'') \<and>
   calls (post plain_domain sample_client Analyze
     (initial (JObj [(''imageUrl'', JStr ''https://example.com/cat.jpg'')]))) =
     [AnalyzeImage (JStr ''https://example.com/cat.jpg'')
        [''ImageType'', ''Faces'', ''Adult'', ''Categories'', ''Color'', ''Tags'',
         ''Description'', ''Objects'', ''Brands'']
        (Some [''Landmarks''])] \<and>
   statusCode (post plain_domain sample_client Analyze
     (initial (JObj [(''imageUrl'', JStr ''https://example.com/cat.jpg'')]))) = 200 \<and>
   jsonBody (post plain_domain sample_client Analyze
     (initial (JObj [(''imageUrl'', JStr ''https://example.com/cat.jpg'')]))) = Some sample_analysis"
proof -
  have a: "newURL plain_domain (JStr ''https://example.com/cat.jpg'')"
    by (simp add: url_defs plain_domain_def)
  show ?thesis
    using a
      analyze_issues_one_composite_call [where hostp = plain_domain and client = sample_client
        and kvs = "[(''imageUrl'', JStr ''https://example.com/cat.jpg'')]"
        and url = "JStr ''https://example.com/cat.jpg''"]
    by (simp add: sample_client_def)
qed


text \<open>
  C6. For a valid \<^verbatim>\<open>imageUrl\<close>, \<^verbatim>\<open>/api/vision/objects\<close> calls object detection,
  \<^verbatim>\<open>/api/vision/describe\<close> calls image description and \<^verbatim>\<open>/api/vision/text\<close> calls
  printed-text recognition with the flag \<^verbatim>\<open>false\<close>, each exactly once; when the call
  succeeds the answer is 200 with the whole result of that call, unmodified.
\<close>

theorem dedicated_operations_answer_with_result:
  assumes "map_of kvs ''imageUrl'' = Some url" and "truthy url" and "newURL hostp url"
    and "client (DetectObjects url) = Inr detected"
    and "client (DescribeImage url) = Inr described"
    and "client (RecognizePrintedText False url) = Inr recognized"
  shows "calls (post hostp client Objects (initial (JObj kvs))) = [DetectObjects url] \<and>
         statusCode (post hostp client Objects (initial (JObj kvs))) = 200 \<and>
         jsonBody (post hostp client Objects (initial (JObj kvs))) = Some detected \<and>
         calls (post hostp client Describe (initial (JObj kvs))) = [DescribeImage url] \<and>
         statusCode (post hostp client Describe (initial (JObj kvs))) = 200 \<and>
         jsonBody (post hostp client Describe (initial (JObj kvs))) = Some described \<and>
         calls (post hostp client Text (initial (JObj kvs))) = [RecognizePrintedText False url] \<and>
         statusCode (post hostp client Text (initial (JObj kvs))) = 200 \<and>
         jsonBody (post hostp client Text (initial (JObj kvs))) = Some recognized"
proof -
  have u: "getProp (reqBody (initial (JObj kvs))) ''imageUrl'' = Inr url"
    using assms(1) by (simp add: initial_def)
  have ob: "post hostp client Objects (initial (JObj kvs)) =
      (initial (JObj kvs))\<lparr>jsonBody := Some detected,
        calls := calls (initial (JObj kvs)) @ [DetectObjects url]\<rparr>"
    unfolding post_accepted [OF assms(1,2,3)] handler.simps
    by (rule objects_success [where client = client, OF u assms(4)])
  have de: "post hostp client Describe (initial (JObj kvs)) =
      (initial (JObj kvs))\<lparr>jsonBody := Some described,
        calls := calls (initial (JObj kvs)) @ [DescribeImage url]\<rparr>"
    unfolding post_accepted [OF assms(1,2,3)] handler.simps
    by (rule describe_success [where client = client, OF u assms(5)])
  have te: "post hostp client Text (initial (JObj kvs)) =
      (initial (JObj kvs))\<lparr>jsonBody := Some recognized,
        calls := calls (initial (JObj kvs)) @ [RecognizePrintedText False url]\<rparr>"
    unfolding post_accepted [OF assms(1,2,3)] handler.simps
    by (rule text_success [where client = client, OF u assms(6)])
  show ?thesis
    unfolding ob de te by (simp add: initial_def)
qed

theorem dedicated_operations_answer_with_result_witness:
  "truthy (JStr ''https://example.com/cat.jpg'') \<and>
   newURL plain_domain (JStr ''https://example.com/cat.jpg'') \<and>
   sample_client (DetectObjects (JStr ''https://example.com/cat.jpg'')) = Inr sample_analysis \<and>
   calls (post plain_domain sample_client Objects
     (initial (JObj [(''imageUrl'', JStr ''https://example.com/cat.jpg'')]))) =
     [DetectObjects (JStr ''https://example.com/cat.jpg'')] \<and>
   jsonBody (post plain_domain sample_client Objects
     (initial (JObj [(''imageUrl'', JStr ''https://example.com/cat.jpg'')]))) = Some sample_analysis \<and>
   calls (post plain_domain sample_client Describe
     (initial (JObj [(''imageUrl'', JStr ''https://example.com/cat.jpg'')]))) =
     [DescribeImage (JStr ''https://example.com/cat.jpg'')] \<and>
   calls (post plain_domain sample_client Text
     (initial (JObj [(''imageUrl'', JStr ''https://example.com/cat.jpg'')]))) =
     [RecognizePrintedText False (JStr ''https://example.com/cat.jpg'')] \<and>
   statusCode (post plain_domain sample_client Text
     (initial (JObj [(''imageUrl'', JStr ''https://example.com/cat.jpg'')]))) = 200"
proof -
  have a: "newURL plain_domain (JStr ''https://example.com/cat.jpg'')"
    by (simp add: url_defs plain_domain_def)
  show ?thesis
    using a
      dedicated_operations_answer_with_result [where hostp = plain_domain
        and client = sample_client
        and kvs = "[(''imageUrl'', JStr ''https://example.com/cat.jpg'')]"
        and url = "JStr ''https://example.com/cat.jpg''"
        and detected = sample_analysis and described = sample_analysis
        and recognized = sample_analysis]
    by (simp add: sample_client_def)
qed

text \<open>
  C10. For a valid \<^verbatim>\<open>imageUrl\<close>, when the composite call succeeds with a result
  object that lacks the projected field (\<^verbatim>\<open>tags\<close>, \<^verbatim>\<open>faces\<close>, \<^verbatim>\<open>color\<close>), the
  endpoints \<^verbatim>\<open>/api/vision/tags\<close>, \<^verbatim>\<open>/api/vision/faces\<close> and \<^verbatim>\<open>/api/vision/colors\<close>
  still answer with status 200 and the body \<^verbatim>\<open>undefined\<close>; the error branch is not
  taken, so nothing is logged.
\<close>

theorem absent_subfield_answers_undefined:
  assumes "map_of kvs ''imageUrl'' = Some url" and "truthy url" and "newURL hostp url"
    and "client (issued Tags url) = Inr (JObj rt)" and "map_of rt ''tags'' = None"
    and "client (issued Faces url) = Inr (JObj rf)" and "map_of rf ''faces'' = None"
    and "client (issued Colors url) = Inr (JObj rc)" and "map_of rc ''color'' = None"
  shows "statusCode (post hostp client Tags (initial (JObj kvs))) = 200 \<and>
         jsonBody (post hostp client Tags (initial (JObj kvs))) = Some JUndefined \<and>
         console (post hostp client Tags (initial (JObj kvs))) = [] \<and>
         statusCode (post hostp client Faces (initial (JObj kvs))) = 200 \<and>
         jsonBody (post hostp client Faces (initial (JObj kvs))) = Some JUndefined \<and>
         console (post hostp client Faces (initial (JObj kvs))) = [] \<and>
         statusCode (post hostp client Colors (initial (JObj kvs))) = 200 \<and>
         jsonBody (post hostp client Colors (initial (JObj kvs))) = Some JUndefined \<and>
         console (post hostp client Colors (initial (JObj kvs))) = []"
proof -
  have u: "getProp (reqBody (initial (JObj kvs))) ''imageUrl'' = Inr url"
    using assms(1) by (simp add: initial_def)
  have t: "post hostp client Tags (initial (JObj kvs)) =
      (initial (JObj kvs))\<lparr>jsonBody := Some JUndefined,
        calls := calls (initial (JObj kvs)) @ [AnalyzeImage url [''Tags''] None]\<rparr>"
    unfolding post_accepted [OF assms(1,2,3)] handler.simps
    by (rule tags_success [where client = client and analysis = "JObj rt", OF u])
       (use assms(4,5) in simp_all)
  have f: "post hostp client Faces (initial (JObj kvs)) =
      (initial (JObj kvs))\<lparr>jsonBody := Some JUndefined,
        calls := calls (initial (JObj kvs)) @ [AnalyzeImage url [''Faces''] None]\<rparr>"
    unfolding post_accepted [OF assms(1,2,3)] handler.simps
    by (rule faces_success [where client = client and analysis = "JObj rf", OF u])
       (use assms(6,7) in simp_all)
  have c: "post hostp client Colors (initial (JObj kvs)) =
      (initial (JObj kvs))\<lparr>jsonBody := Some JUndefined,
        calls := calls (initial (JObj kvs)) @ [AnalyzeImage url [''Color''] None]\<rparr>"
    unfolding post_accepted [OF assms(1,2,3)] handler.simps
    by (rule colors_success [where client = client and analysis = "JObj rc", OF u])
       (use assms(8,9) in simp_all)
  show ?thesis
    unfolding t f c by (simp add: initial_def)
qed

theorem absent_subfield_answers_undefined_witness:
  "truthy (JStr ''https://example.com/cat.jpg'') \<and>
   newURL plain_domain (JStr ''https://example.com/cat.jpg'') \<and>
   bare_client (issued Tags (JStr ''https://example.com/cat.jpg'')) = Inr (JObj []) \<and>
   map_of [] ''tags'' = (None :: jsval option) \<and>
   statusCode (post plain_domain bare_client Tags
     (initial (JObj [(''imageUrl'', JStr ''https://example.com/cat.jpg'')]))) = 200 \<and>
   jsonBody (post plain_domain bare_client Tags
     (initial (JObj [(''imageUrl'', JStr ''https://example.com/cat.jpg'')]))) = Some JUndefined \<and>
   jsonBody (post plain_domain bare_client Faces
     (initial (JObj [(''imageUrl'', JStr ''https://example.com/cat.jpg'')]))) = Some JUndefined \<and>
   jsonBody (post plain_domain bare_client Colors
     (initial (JObj [(''imageUrl'', JStr ''https://example.com/cat.jpg'')]))) = Some JUndefined"
proof -
  have a: "newURL plain_domain (JStr ''https://example.com/cat.jpg'')"
    by (simp add: url_defs plain_domain_def)
  show ?thesis
    using a
      absent_subfield_answers_undefined [where hostp = plain_domain and client = bare_client
        and kvs = "[(''imageUrl'', JStr ''https://example.com/cat.jpg'')]"
        and url = "JStr ''https://example.com/cat.jpg''"
        and rt = "[]" and rf = "[]" and rc = "[]"]
    by (simp add: bare_client_def)
qed

section \<open>Failed calls\<close>

text \<open>
  C5. For a valid \<^verbatim>\<open>imageUrl\<close> and each endpoint, when the remote call fails, the
  answer is 500 with a JSON body whose \<^verbatim>\<open>error\<close> field is the failure's
  \<^verbatim>\<open>message\<close> when it has a truthy one (a non-empty string, for a string) and the
  fallback \<^verbatim>\<open>An error occurred during image analysis\<close> otherwise; the call is made
  once and no other status is produced. A failure is a thrown value whose
  \<^verbatim>\<open>message\<close> can be read: anything but \<^verbatim>\<open>undefined\<close> and \<^verbatim>\<open>null\<close>, and the SDK
  rejects with error objects.
\<close>

theorem failed_call_answers_500:
  assumes "map_of kvs ''imageUrl'' = Some url" and "truthy url" and "newURL hostp url"
    and "client (issued ep url) = Inl err" and "err \<noteq> JUndefined" and "err \<noteq> JNull"
  shows "\<exists>message. getProp err ''message'' = Inr message \<and>
           statusCode (post hostp client ep (initial (JObj kvs))) = 500 \<and>
           jsonBody (post hostp client ep (initial (JObj kvs))) =
             Some (JObj [(''error'',
               if truthy message then message
               else JStr ''An error occurred during image analysis'')]) \<and>
           calls (post hostp client ep (initial (JObj kvs))) = [issued ep url]"
proof -
  have u: "getProp (reqBody (initial (JObj kvs))) ''imageUrl'' = Inr url"
    using assms(1) by (simp add: initial_def)
  from getProp_readable [OF assms(5,6)]
  obtain message where m: "getProp err ''message'' = Inr message"
    by blast
  have "post hostp client ep (initial (JObj kvs)) =
      processError err ((initial (JObj kvs))\<lparr>calls := calls (initial (JObj kvs)) @ [issued ep url]\<rparr>)"
    unfolding post_accepted [OF assms(1,2,3)]
    by (rule handler_failure [where client = client and ep = ep, OF u assms(4)])
  then have "statusCode (post hostp client ep (initial (JObj kvs))) = 500 \<and>
      jsonBody (post hostp client ep (initial (JObj kvs))) =
        Some (JObj [(''error'',
          if truthy message then message
          else JStr ''An error occurred during image analysis'')]) \<and>
      calls (post hostp client ep (initial (JObj kvs))) = [issued ep url]"
    by (simp add: processError_readable [OF m] initial_def)
  with m show ?thesis
    by blast
qed

theorem failed_call_answers_500_witness:
  "truthy (JStr ''https://example.com/cat.jpg'') \<and>
   newURL plain_domain (JStr ''https://example.com/cat.jpg'') \<and>
   failing_client (issued Colors (JStr ''https://example.com/cat.jpg'')) =
     Inl (JObj [(''name'', JStr ''RestError''), (''message'', JStr ''Access denied'')]) \<and>
   statusCode (post plain_domain failing_client Colors
     (initial (JObj [(''imageUrl'', JStr ''https://example.com/cat.jpg'')]))) = 500 \<and>
   jsonBody (post plain_domain failing_client Colors
     (initial (JObj [(''imageUrl'', JStr ''https://example.com/cat.jpg'')]))) =
     Some (JObj [(''error'', JStr ''Access denied'')])"
proof -
  have a: "newURL plain_domain (JStr ''https://example.com/cat.jpg'')"
    by (simp add: url_defs plain_domain_def)
  show ?thesis
    using a
      failed_call_answers_500 [where hostp = plain_domain and client = failing_client
        and kvs = "[(''imageUrl'', JStr ''https://example.com/cat.jpg'')]"
        and url = "JStr ''https://example.com/cat.jpg''" and ep = Colors
        and err = "JObj [(''name'', JStr ''RestError''), (''message'', JStr ''Access denied'')]"]
    by (auto simp: failing_client_def)
qed

section \<open>The service description\<close>

text \<open>
  C7. Whatever the environment and the request, \<^verbatim>\<open>GET /\<close> answers 200 with a JSON
  object whose keys are exactly \<^verbatim>\<open>message\<close>, \<^verbatim>\<open>documentation\<close>, \<^verbatim>\<open>note\<close> and
  \<^verbatim>\<open>endpoints\<close>; \<^verbatim>\<open>endpoints\<close> has exactly the seven keys \<^verbatim>\<open>analyze\<close>, \<^verbatim>\<open>tags\<close>,
  \<^verbatim>\<open>objects\<close>, \<^verbatim>\<open>describe\<close>, \<^verbatim>\<open>text\<close>, \<^verbatim>\<open>faces\<close>, \<^verbatim>\<open>colors\<close>, and their values are
  the paths under which the seven POST routes are registered, in that order.
\<close>

theorem root_describes_service:
  "statusCode (root_handler env (initial body)) = 200 \<and>
   (\<exists>fields listed.
      jsonBody (root_handler env (initial body)) = Some (JObj fields) \<and>
      map fst fields = [''message'', ''documentation'', ''note'', ''endpoints''] \<and>
      map_of fields ''endpoints'' = Some (JObj listed) \<and>
      map fst listed =
        [''analyze'', ''tags'', ''objects'', ''describe'', ''text'', ''faces'', ''colors''] \<and>
      map snd listed = map (\<lambda>ep. JStr (path ep)) endpoints \<and>
      map_of listed ''analyze'' = Some (JStr ''/api/vision/analyze'') \<and>
      map_of listed ''tags'' = Some (JStr ''/api/vision/tags'') \<and>
      map_of listed ''objects'' = Some (JStr ''/api/vision/objects'') \<and>
      map_of listed ''describe'' = Some (JStr ''/api/vision/describe'') \<and>
      map_of listed ''text'' = Some (JStr ''/api/vision/text'') \<and>
      map_of listed ''faces'' = Some (JStr ''/api/vision/faces'') \<and>
      map_of listed ''colors'' = Some (JStr ''/api/vision/colors''))"
  by (simp add: root_handler_def res_json_def initial_def endpoints_def)


end
